theory Spec2Isabelle
  imports Complex_Main "HOL-Library.Sublist" "HOL-Library.AList"
begin

section \<open>Texts and the regular expressions of the scorers\<close>

text \<open>
  A Python \<open>str\<close> is a sequence of code points. A text is modelled as a \<open>string\<close>
  whose characters are the code points below 256; the character classes below are
  Python's tables for that range. Scores are Python floats; they are modelled as reals.
\<close>

datatype error = KeyError | NameError | NotImplementedError | IndexError | RuntimeError

text \<open>\<open>str.isspace\<close>, which is also the class \<open>\s\<close> of \<open>re\<close> on a \<open>str\<close>.\<close>

definition isspace :: "char \<Rightarrow> bool" where
  "isspace c \<longleftrightarrow> c \<in> set [CHR 0x09, CHR 0x0A, CHR 0x0B, CHR 0x0C, CHR 0x0D,
     CHR 0x1C, CHR 0x1D, CHR 0x1E, CHR 0x1F, CHR 0x20, CHR 0x85, CHR 0xA0]"

text \<open>\<open>str.strip()\<close> with no argument.\<close>

definition strip :: "string \<Rightarrow> string" where
  "strip s = rev (dropWhile isspace (rev (dropWhile isspace s)))"

text \<open>The class \<open>\w\<close> of \<open>re\<close> on a \<open>str\<close>: alphanumeric code points and the underscore.\<close>

definition is_word :: "char \<Rightarrow> bool" where
  "is_word c =
     (let n = (of_char c :: nat) in
      (48 \<le> n \<and> n \<le> 57) \<or> (65 \<le> n \<and> n \<le> 90) \<or> n = 95 \<or> (97 \<le> n \<and> n \<le> 122) \<or>
      n \<in> set [170, 178, 179, 181, 185, 186, 188, 189, 190] \<or>
      (192 \<le> n \<and> n \<le> 214) \<or> (216 \<le> n \<and> n \<le> 246) \<or> (248 \<le> n \<and> n \<le> 255))"

text \<open>The class \<open>[a-zA-Z]\<close>, with or without \<open>re.IGNORECASE\<close>.\<close>

definition is_letter :: "char \<Rightarrow> bool" where
  "is_letter c =
     (let n = (of_char c :: nat) in (65 \<le> n \<and> n \<le> 90) \<or> (97 \<le> n \<and> n \<le> 122))"

text \<open>\<open>str.lower()\<close> on one code point.\<close>

definition lower_char :: "char \<Rightarrow> char" where
  "lower_char c =
     (let n = (of_char c :: nat) in
      if (65 \<le> n \<and> n \<le> 90) \<or> (192 \<le> n \<and> n \<le> 222 \<and> n \<noteq> 215)
      then char_of (n + 32) else c)"

definition lower :: "string \<Rightarrow> string" where
  "lower s = map lower_char s"

text \<open>
  A literal under \<open>re.IGNORECASE\<close> matches at the head of \<open>text\<close>: character by
  character, up to letter case.
\<close>

definition prefix_ci :: "string \<Rightarrow> string \<Rightarrow> bool" where
  "prefix_ci pat text \<longleftrightarrow> prefix (lower pat) (lower text)"

text \<open>A literal matches at the head of \<open>text\<close>; \<open>ignorecase\<close> is the flag \<open>re.IGNORECASE\<close>.\<close>

definition lit_match :: "bool \<Rightarrow> string \<Rightarrow> string \<Rightarrow> bool" where
  "lit_match ignorecase pat text \<longleftrightarrow> (if ignorecase then prefix_ci pat text else prefix pat text)"

text \<open>
  \<open>pattern.finditer(text)\<close> for a pattern that is a literal: the start offsets of the
  non-overlapping matches, from left to right. After a match the scan resumes behind it
  (\<open>skip\<close> counts the characters of the match still to pass). The four tag patterns
  of \<open>rule.py\<close> and \<open>newkk.py\<close> are compiled without flags.
\<close>

fun finditer_from :: "bool \<Rightarrow> string \<Rightarrow> nat \<Rightarrow> nat \<Rightarrow> string \<Rightarrow> nat list" where
  "finditer_from ignorecase pat skip i [] = []"
| "finditer_from ignorecase pat skip i (c # cs) =
     (if 0 < skip then finditer_from ignorecase pat (skip - 1) (Suc i) cs
      else if lit_match ignorecase pat (c # cs)
      then i # finditer_from ignorecase pat (length pat - 1) (Suc i) cs
      else finditer_from ignorecase pat 0 (Suc i) cs)"

definition finditer :: "bool \<Rightarrow> string \<Rightarrow> string \<Rightarrow> nat list" where
  "finditer ignorecase pat text = finditer_from ignorecase pat 0 0 text"

text \<open>The offset of the first occurrence of a literal, as \<open>re.search\<close> finds it.\<close>

fun find_lit :: "string \<Rightarrow> string \<Rightarrow> nat option" where
  "find_lit pat [] = (if pat = [] then Some 0 else None)"
| "find_lit pat (c # cs) =
     (if prefix pat (c # cs) then Some 0 else map_option Suc (find_lit pat cs))"

text \<open>
  \<open>re.compile(open + '(.*?)' + close, re.DOTALL).search(text)\<close>, returning group 1:
  the leftmost start at which \<open>open\<close> matches and some \<open>close\<close> follows; the lazy
  group ends at the first \<open>close\<close> behind \<open>open\<close>. A start where no \<open>close\<close>
  follows fails and the search moves on.
\<close>

fun search_content :: "string \<Rightarrow> string \<Rightarrow> string \<Rightarrow> string option" where
  "search_content opn cls [] = None"
| "search_content opn cls (c # cs) =
     (if prefix opn (c # cs) then
        (case find_lit cls (drop (length opn) (c # cs)) of
           Some q \<Rightarrow> Some (take q (drop (length opn) (c # cs)))
         | None \<Rightarrow> search_content opn cls cs)
      else search_content opn cls cs)"

definition RE_THINK_START :: string where "RE_THINK_START = ''<think>''"
definition RE_THINK_END :: string where "RE_THINK_END = ''</think>''"
definition RE_ANSWER_START :: string where "RE_ANSWER_START = ''<answer>''"
definition RE_ANSWER_END :: string where "RE_ANSWER_END = ''</answer>''"

definition RE_THINK_CONTENT_search :: "string \<Rightarrow> string option" where
  "RE_THINK_CONTENT_search text = search_content ''<think>'' ''</think>'' text"

definition RE_ANSWER_CONTENT_search :: "string \<Rightarrow> string option" where
  "RE_ANSWER_CONTENT_search text = search_content ''<answer>'' ''</answer>'' text"

definition critical_tags_data :: "(string \<times> string) list" where
  "critical_tags_data =
     [(''think_start'', RE_THINK_START), (''think_end'', RE_THINK_END),
      (''answer_start'', RE_ANSWER_START), (''answer_end'', RE_ANSWER_END)]"

text \<open>
  The order test of stage 2, on the start offsets that stage 1 recorded: the first (and
  then only) match of each tag.
\<close>

definition tags_in_order :: "string \<Rightarrow> bool" where
  "tags_in_order text \<longleftrightarrow>
     hd (finditer False ''<think>'' text) < hd (finditer False ''</think>'' text) \<and>
     hd (finditer False ''</think>'' text) < hd (finditer False ''<answer>'' text) \<and>
     hd (finditer False ''<answer>'' text) < hd (finditer False ''</answer>'' text)"

text \<open>\<open>d[k]\<close> on a dict: a missing key raises \<open>KeyError\<close>.\<close>

definition getitem :: "('k \<rightharpoonup> 'v) \<Rightarrow> 'k \<Rightarrow> error + 'v" where
  "getitem d k = (case d k of None \<Rightarrow> Inl KeyError | Some v \<Rightarrow> Inr v)"

text \<open>Sequencing of steps that may raise: the first error ends the computation.\<close>

definition and_then :: "error + 'a \<Rightarrow> ('a \<Rightarrow> error + 'b) \<Rightarrow> error + 'b" where
  "and_then r f = (case r of Inl e \<Rightarrow> Inl e | Inr v \<Rightarrow> f v)"

section \<open>The rule scorer (\<open>rule.py\<close>)\<close>

definition rule_REWARD_TAG_PRESENT :: real where "rule_REWARD_TAG_PRESENT = 0.5"
definition rule_PENALTY_TAG_MISSING_OR_DUPLICATE :: real where
  "rule_PENALTY_TAG_MISSING_OR_DUPLICATE = - 2.0"
definition rule_REWARD_ORDER_CORRECT :: real where "rule_REWARD_ORDER_CORRECT = 1.0"
definition rule_PENALTY_ORDER_INCORRECT :: real where "rule_PENALTY_ORDER_INCORRECT = - 3.0"
definition rule_REWARD_CONTENT_NON_EMPTY_THINK :: real where
  "rule_REWARD_CONTENT_NON_EMPTY_THINK = 0.2"
definition rule_PENALTY_CONTENT_EMPTY_THINK :: real where
  "rule_PENALTY_CONTENT_EMPTY_THINK = - 0.5"
definition rule_REWARD_CONTENT_NON_EMPTY_ANSWER :: real where
  "rule_REWARD_CONTENT_NON_EMPTY_ANSWER = 0.5"
definition rule_PENALTY_CONTENT_EMPTY_ANSWER :: real where
  "rule_PENALTY_CONTENT_EMPTY_ANSWER = - 1.0"

text \<open>
  Stage 1 of \<open>compute_score\<close>: the loop over \<open>critical_tags_data\<close>. \<open>Inl s\<close> is the
  early \<open>return score\<close>; \<open>Inr (score, tag_positions)\<close> is the state when the loop ends.
\<close>

fun rule_stage1 ::
  "(string \<times> string) list \<Rightarrow> string \<Rightarrow> real \<Rightarrow> (string \<rightharpoonup> nat) \<Rightarrow>
   real + (real \<times> (string \<rightharpoonup> nat))" where
  "rule_stage1 [] model_response score tag_positions = Inr (score, tag_positions)"
| "rule_stage1 ((tag_name, pattern) # rest) model_response score tag_positions =
     (let matches = finditer False pattern model_response in
      if length matches = 1 then
        rule_stage1 rest model_response (score + rule_REWARD_TAG_PRESENT)
          (tag_positions(tag_name \<mapsto> hd matches))
      else if length matches = 0 then Inl (score + rule_PENALTY_TAG_MISSING_OR_DUPLICATE)
      else Inl (score + rule_PENALTY_TAG_MISSING_OR_DUPLICATE))"

text \<open>Stage 3: the two content checks, added to the score so far.\<close>

definition rule_stage3 :: "string \<Rightarrow> real \<Rightarrow> real" where
  "rule_stage3 model_response score =
     (let score1 =
        (case RE_THINK_CONTENT_search model_response of
           Some g \<Rightarrow> if strip g \<noteq> [] then score + rule_REWARD_CONTENT_NON_EMPTY_THINK
                     else score + rule_PENALTY_CONTENT_EMPTY_THINK
         | None \<Rightarrow> score + rule_PENALTY_CONTENT_EMPTY_THINK)
      in (case RE_ANSWER_CONTENT_search model_response of
            Some g \<Rightarrow> if strip g \<noteq> [] then score1 + rule_REWARD_CONTENT_NON_EMPTY_ANSWER
                      else score1 + rule_PENALTY_CONTENT_EMPTY_ANSWER
          | None \<Rightarrow> score1 + rule_PENALTY_CONTENT_EMPTY_ANSWER))"

text \<open>
  \<open>rule.compute_score(model_response, ground_truth)\<close>. The result is \<open>Inl\<close> where the
  Python raises.
\<close>

definition rule_compute_score :: "string \<Rightarrow> 'g \<Rightarrow> error + real" where
  "rule_compute_score model_response ground_truth =
     (case rule_stage1 critical_tags_data model_response 0.0 Map.empty of
        Inl s \<Rightarrow> Inr s
      | Inr (score, tag_positions) \<Rightarrow>
          and_then (getitem tag_positions ''think_start'') (\<lambda>ts_start.
          and_then (getitem tag_positions ''think_end'') (\<lambda>te_start.
          and_then (getitem tag_positions ''answer_start'') (\<lambda>as_start.
          and_then (getitem tag_positions ''answer_end'') (\<lambda>ae_start.
            if ts_start < te_start \<and> te_start < as_start \<and> as_start < ae_start
            then Inr (rule_stage3 model_response (score + rule_REWARD_ORDER_CORRECT))
            else Inr (score + rule_PENALTY_ORDER_INCORRECT))))))"

section \<open>Word boundaries and line splitting\<close>

text \<open>
  \<open>\b\<close> at a position: the character before it (\<open>prev\<close> tells whether it is a word
  character; there is none at the start) and the character after it differ in being
  word characters.
\<close>

definition at_boundary :: "bool \<Rightarrow> string \<Rightarrow> bool" where
  "at_boundary prev rest \<longleftrightarrow> prev \<noteq> (case rest of [] \<Rightarrow> False | c # _ \<Rightarrow> is_word c)"

text \<open>Whether the last character passed is a word character, after passing \<open>n\<close> more.\<close>

definition prev_after :: "bool \<Rightarrow> nat \<Rightarrow> string \<Rightarrow> bool" where
  "prev_after prev n rest = (if take n rest = [] then prev else is_word (last (take n rest)))"

text \<open>\<open>\b\<close> + literal + \<open>\b\<close> matches at the head of \<open>rest\<close>; \<open>ci\<close> is \<open>re.IGNORECASE\<close>.\<close>

definition match_word_at :: "bool \<Rightarrow> string \<Rightarrow> bool \<Rightarrow> string \<Rightarrow> bool" where
  "match_word_at ci w prev rest \<longleftrightarrow>
     at_boundary prev rest \<and> lit_match ci w rest \<and>
     at_boundary (prev_after prev (length w) rest) (drop (length w) rest)"

text \<open>\<open>re.search(r'\b' + re.escape(name) + r'\b', text)\<close> finds a match.\<close>

fun search_word :: "string \<Rightarrow> bool \<Rightarrow> string \<Rightarrow> bool" where
  "search_word name prev [] = match_word_at False name prev []"
| "search_word name prev (c # cs) =
     (match_word_at False name prev (c # cs) \<or> search_word name (is_word c) cs)"

text \<open>
  The pattern \<open>.*\bname\b.*\brole\b.*\<close> under \<open>re.IGNORECASE\<close>, searched in a text.
  A dot matches every character but the newline, so the leading and the trailing
  \<open>.*\<close> never decide whether there is a match, and the middle one asks that no newline
  stands between the name and the role.
\<close>

fun search_role :: "string \<Rightarrow> bool \<Rightarrow> string \<Rightarrow> bool" where
  "search_role role prev [] = match_word_at True role prev []"
| "search_role role prev (c # cs) =
     (match_word_at True role prev (c # cs) \<or>
      (c \<noteq> CHR 0x0A \<and> search_role role (is_word c) cs))"

fun search_assertion :: "string \<Rightarrow> string \<Rightarrow> bool \<Rightarrow> string \<Rightarrow> bool" where
  "search_assertion name role prev [] =
     (match_word_at True name prev [] \<and> search_role role prev [])"
| "search_assertion name role prev (c # cs) =
     ((match_word_at True name prev (c # cs) \<and>
       search_role role (prev_after prev (length name) (c # cs)) (drop (length name) (c # cs))) \<or>
      search_assertion name role (is_word c) cs)"

text \<open>\<open>str.splitlines()\<close>: the line breaks of the range, \<open>\r\n\<close> being one break.\<close>

definition is_linebreak :: "char \<Rightarrow> bool" where
  "is_linebreak c \<longleftrightarrow> c \<in> set [CHR 0x0A, CHR 0x0B, CHR 0x0C, CHR 0x0D,
     CHR 0x1C, CHR 0x1D, CHR 0x1E, CHR 0x85]"

fun splitlines_from :: "string \<Rightarrow> string \<Rightarrow> string list" where
  "splitlines_from cur [] = (if cur = [] then [] else [cur])"
| "splitlines_from cur [c] = (if is_linebreak c then [cur] else [cur @ [c]])"
| "splitlines_from cur (c # d # cs) =
     (if c = CHR 0x0D \<and> d = CHR 0x0A then cur # splitlines_from [] cs
      else if is_linebreak c then cur # splitlines_from [] (d # cs)
      else splitlines_from (cur @ [c]) (d # cs))"

definition splitlines :: "string \<Rightarrow> string list" where
  "splitlines s = splitlines_from [] s"

section \<open>The logic-puzzle scorer (\<open>newkk.py\<close>)\<close>

text \<open>
  The pattern of \<open>_parse_gt_to_map\<close>,
  \<open>\b([a-zA-Z]+)\b\s+is\s+a\s+\b(knight|knave)\b\<close> under \<open>re.IGNORECASE\<close>, matched at
  the head of \<open>rest\<close>; the result is groups 1 and 2. Each greedy repetition is taken at
  its longest: a shorter run of letters ends before a letter, where \<open>\b\<close> fails, and a
  shorter run of spaces ends before a space, where the literal behind it fails.
\<close>

definition match_gt_at :: "bool \<Rightarrow> string \<Rightarrow> (string \<times> string) option" where
  "match_gt_at prev rest =
     (let name = takeWhile is_letter rest; r1 = dropWhile is_letter rest;
          r2 = dropWhile isspace r1; r3 = drop 2 r2;
          r4 = dropWhile isspace r3; r5 = drop 1 r4;
          r6 = dropWhile isspace r5
      in if at_boundary prev rest \<and> name \<noteq> [] \<and> at_boundary True r1 \<and>
            takeWhile isspace r1 \<noteq> [] \<and> prefix_ci ''is'' r2 \<and>
            takeWhile isspace r3 \<noteq> [] \<and> prefix_ci ''a'' r4 \<and>
            takeWhile isspace r5 \<noteq> [] \<and> at_boundary False r6
         then if prefix_ci ''knight'' r6 \<and> at_boundary True (drop 6 r6)
              then Some (name, take 6 r6)
              else if prefix_ci ''knave'' r6 \<and> at_boundary True (drop 5 r6)
              then Some (name, take 5 r6)
              else None
         else None)"

text \<open>\<open>pattern.search(line)\<close>: the leftmost start with a match.\<close>

fun search_gt :: "bool \<Rightarrow> string \<Rightarrow> (string \<times> string) option" where
  "search_gt prev [] = match_gt_at prev []"
| "search_gt prev (c # cs) =
     (case match_gt_at prev (c # cs) of
        Some g \<Rightarrow> Some g
      | None \<Rightarrow> search_gt (is_word c) cs)"

text \<open>
  \<open>_parse_gt_to_map\<close>. The dict is an association list in insertion order; assigning to
  a key that is present replaces its value in place.
\<close>

fun parse_gt_lines :: "string list \<Rightarrow> (string \<times> string) list \<Rightarrow> (string \<times> string) list" where
  "parse_gt_lines [] gt_map = gt_map"
| "parse_gt_lines (line # lines) gt_map =
     (case search_gt False line of
        Some (g1, g2) \<Rightarrow> parse_gt_lines lines (AList.update (lower g1) (lower g2) gt_map)
      | None \<Rightarrow> parse_gt_lines lines gt_map)"

definition parse_gt_to_map :: "string \<Rightarrow> (string \<times> string) list" where
  "parse_gt_to_map gt_text = parse_gt_lines (splitlines gt_text) []"

definition newkk_REWARD_TAG_PRESENT :: real where "newkk_REWARD_TAG_PRESENT = 0.5"
definition newkk_PENALTY_TAG_MISSING_OR_DUPLICATE :: real where
  "newkk_PENALTY_TAG_MISSING_OR_DUPLICATE = - 4.0"
definition newkk_REWARD_ORDER_CORRECT :: real where "newkk_REWARD_ORDER_CORRECT = 1.0"
definition newkk_PENALTY_ORDER_INCORRECT :: real where "newkk_PENALTY_ORDER_INCORRECT = - 5.0"
definition newkk_PENALTY_CONTENT_EMPTY_ANSWER :: real where
  "newkk_PENALTY_CONTENT_EMPTY_ANSWER = - 2.0"
definition newkk_REWARD_FOR_EACH_CORRECT_ASSERTION :: real where
  "newkk_REWARD_FOR_EACH_CORRECT_ASSERTION = 4"
definition newkk_MIN_THINK_REWARD :: real where "newkk_MIN_THINK_REWARD = - 4.0"
definition newkk_MAX_THINK_REWARD :: real where "newkk_MAX_THINK_REWARD = 4.0"
definition newkk_TARGET_THINK_LENGTH :: real where "newkk_TARGET_THINK_LENGTH = 2000.0"
definition newkk_REWARD_FOR_KEYWORD_IN_THINK :: real where
  "newkk_REWARD_FOR_KEYWORD_IN_THINK = 1.0"

text \<open>Stages 1 and 2: the loop over the four tags; \<open>Inl s\<close> is the early return.\<close>

fun newkk_stage1 ::
  "(string \<times> string) list \<Rightarrow> string \<Rightarrow> real \<Rightarrow> (string \<rightharpoonup> nat) \<Rightarrow>
   real + (real \<times> (string \<rightharpoonup> nat))" where
  "newkk_stage1 [] model_response score tag_positions = Inr (score, tag_positions)"
| "newkk_stage1 ((tag_name, pattern) # rest) model_response score tag_positions =
     (let matches = finditer False pattern model_response in
      if length matches = 1 then
        newkk_stage1 rest model_response (score + newkk_REWARD_TAG_PRESENT)
          (tag_positions(tag_name \<mapsto> hd matches))
      else Inl (score + newkk_PENALTY_TAG_MISSING_OR_DUPLICATE))"

text \<open>Stage 3a: the length score of a reasoning block of \<open>think_length\<close> characters.\<close>

definition newkk_slope :: real where
  "newkk_slope = (newkk_MAX_THINK_REWARD - newkk_MIN_THINK_REWARD) / newkk_TARGET_THINK_LENGTH"

definition newkk_think_length_score :: "nat \<Rightarrow> real" where
  "newkk_think_length_score think_length =
     min (newkk_slope * real think_length + newkk_MIN_THINK_REWARD) newkk_MAX_THINK_REWARD"

text \<open>Stage 3b: the loop over the names of \<open>gt_map\<close>.\<close>

fun newkk_think_quality_score :: "string list \<Rightarrow> string \<Rightarrow> real" where
  "newkk_think_quality_score [] think_content_lower = 0"
| "newkk_think_quality_score (name # names) think_content_lower =
     (if search_word name False think_content_lower
      then newkk_REWARD_FOR_KEYWORD_IN_THINK else 0) +
     newkk_think_quality_score names think_content_lower"

text \<open>Stage 4: the loop counting the assertions found in the answer.\<close>

fun newkk_num_correct_assertions :: "(string \<times> string) list \<Rightarrow> string \<Rightarrow> nat" where
  "newkk_num_correct_assertions [] model_answer_text = 0"
| "newkk_num_correct_assertions ((name, correct_role) # items) model_answer_text =
     (if search_assertion name correct_role False model_answer_text then 1 else 0) +
     newkk_num_correct_assertions items model_answer_text"

text \<open>The locals \<open>think_content\<close>, \<open>gt_map\<close> and \<open>model_answer_text\<close>.\<close>

definition think_content :: "string \<Rightarrow> string" where
  "think_content model_response =
     (case RE_THINK_CONTENT_search model_response of Some g \<Rightarrow> strip g | None \<Rightarrow> [])"

definition gt_map_of :: "(string \<rightharpoonup> string) \<Rightarrow> (string \<times> string) list" where
  "gt_map_of ground_truth =
     parse_gt_to_map (case ground_truth ''solution_text_format'' of Some t \<Rightarrow> t | None \<Rightarrow> [])"

definition model_answer_text :: "string \<Rightarrow> string" where
  "model_answer_text model_response =
     (case RE_ANSWER_CONTENT_search model_response of Some g \<Rightarrow> strip g | None \<Rightarrow> [])"

text \<open>Stages 3 and 4, from the score that stages 1 and 2 have reached.\<close>

definition newkk_stage34 :: "string \<Rightarrow> (string \<rightharpoonup> string) \<Rightarrow> real \<Rightarrow> real" where
  "newkk_stage34 model_response ground_truth score0 =
     (let think_length = length (think_content model_response);
          score1 = score0 + newkk_think_length_score think_length;
          gt_map = gt_map_of ground_truth;
          score2 = (if gt_map \<noteq> []
                    then score1 + newkk_think_quality_score (map fst gt_map)
                                    (lower (think_content model_response))
                    else score1)
      in if model_answer_text model_response = [] \<or> gt_map = []
         then score2 + (if model_answer_text model_response = []
                        then newkk_PENALTY_CONTENT_EMPTY_ANSWER else 0)
         else score2 + real (newkk_num_correct_assertions gt_map (model_answer_text model_response)) *
                newkk_REWARD_FOR_EACH_CORRECT_ASSERTION)"

text \<open>\<open>newkk.compute_score(model_response, ground_truth)\<close>.\<close>

definition newkk_compute_score :: "string \<Rightarrow> (string \<rightharpoonup> string) \<Rightarrow> error + real" where
  "newkk_compute_score model_response ground_truth =
     (case newkk_stage1 critical_tags_data model_response 0.0 Map.empty of
        Inl s \<Rightarrow> Inr s
      | Inr (score, tag_positions) \<Rightarrow>
          and_then (getitem tag_positions ''think_start'') (\<lambda>ts.
          and_then (getitem tag_positions ''think_end'') (\<lambda>te.
          and_then (getitem tag_positions ''answer_start'') (\<lambda>as.
          and_then (getitem tag_positions ''answer_end'') (\<lambda>ae.
            if \<not> (ts < te \<and> te < as \<and> as < ae)
            then Inr (score + newkk_PENALTY_ORDER_INCORRECT)
            else Inr (newkk_stage34 model_response ground_truth
                        (score + newkk_REWARD_ORDER_CORRECT)))))))"

section \<open>The molecule scorer (\<open>chem.py\<close>)\<close>

text \<open>
  The cheminformatics library is outside the repository. Its calls are parameters of the
  model: each returns a value or raises. The two module flags say whether the library and
  the synthetic-accessibility estimator were imported.
\<close>

datatype 'a outcome = Raises | Returns 'a

record 'mol rdkit =
  RDKIT_AVAILABLE :: bool
  SA_SCORE_AVAILABLE :: bool
  MolFromSmiles :: "string \<Rightarrow> 'mol option outcome"
  QED_qed :: "'mol \<Rightarrow> real outcome"
  calculateScore :: "'mol \<Rightarrow> real outcome"
  MolLogP :: "'mol \<Rightarrow> real outcome"
  MolWt :: "'mol \<Rightarrow> real outcome"
  TPSA :: "'mol \<Rightarrow> real outcome"
  NumHDonors :: "'mol \<Rightarrow> int outcome"
  NumHAcceptors :: "'mol \<Rightarrow> int outcome"
  NumAromaticRings :: "'mol \<Rightarrow> int outcome"
  NumRotatableBonds :: "'mol \<Rightarrow> int outcome"

text \<open>
  The search of \<open><SMILES>\s*(.+?)\s*</SMILES>\<close> under \<open>re.IGNORECASE | re.DOTALL\<close>.
  \<open>smiles_tail\<close>: \<open>\s*</SMILES>\<close> matches at the head (the spaces are taken at their
  longest: a shorter run ends before a space, where \<open><\<close> fails).
  \<open>smiles_group\<close>: the lazy group takes one character, then as few more as allow the
  tail to match. \<open>smiles_lead\<close>: the leading \<open>\s*\<close> takes \<open>k\<close> spaces, the longest run
  first, and gives one back each time the rest fails.
\<close>

definition smiles_tail :: "string \<Rightarrow> bool" where
  "smiles_tail rest \<longleftrightarrow> lit_match True ''</SMILES>'' (dropWhile isspace rest)"

fun smiles_group :: "string \<Rightarrow> string \<Rightarrow> string option" where
  "smiles_group taken [] = None"
| "smiles_group taken (c # cs) =
     (if smiles_tail cs then Some (taken @ [c]) else smiles_group (taken @ [c]) cs)"

fun smiles_lead :: "nat \<Rightarrow> string \<Rightarrow> string option" where
  "smiles_lead 0 rest = smiles_group [] rest"
| "smiles_lead (Suc k) rest =
     (case smiles_group [] (drop (Suc k) rest) of
        Some g \<Rightarrow> Some g
      | None \<Rightarrow> smiles_lead k rest)"

fun search_smiles :: "string \<Rightarrow> string option" where
  "search_smiles [] = None"
| "search_smiles (c # cs) =
     (if lit_match True ''<SMILES>'' (c # cs) then
        (case smiles_lead (length (takeWhile isspace (drop 8 (c # cs)))) (drop 8 (c # cs)) of
           Some g \<Rightarrow> Some g
         | None \<Rightarrow> search_smiles cs)
      else search_smiles cs)"

definition check_format :: "string \<Rightarrow> real \<times> string option" where
  "check_format response_str =
     (let open_tags = finditer True ''<SMILES>'' response_str;
          close_tags = finditer True ''</SMILES>'' response_str
      in if length open_tags = 1 \<and> length close_tags = 1 then
           (case search_smiles response_str of
              Some g \<Rightarrow> (let smiles = strip g in
                         if smiles \<noteq> [] then (1.0, Some smiles) else (- 5.0, None))
            | None \<Rightarrow> (- 5.0, None))
         else (- 5.0, None))"

definition check_validity :: "'mol rdkit \<Rightarrow> string \<Rightarrow> real \<times> 'mol option" where
  "check_validity env smiles =
     (if \<not> RDKIT_AVAILABLE env then (- 3.0, None)
      else case MolFromSmiles env smiles of
             Raises \<Rightarrow> (- 3.0, None)
           | Returns None \<Rightarrow> (- 3.0, None)
           | Returns (Some mol) \<Rightarrow> (0.5, Some mol))"

definition qed_reward :: "'mol rdkit \<Rightarrow> 'mol \<Rightarrow> real" where
  "qed_reward env mol =
     (if \<not> RDKIT_AVAILABLE env then 0.0
      else case QED_qed env mol of
             Raises \<Rightarrow> 0.0
           | Returns qed_score \<Rightarrow> if qed_score < 0.5 then 0.0 else (qed_score - 0.5) * 4.0)"

definition sa_reward :: "'mol rdkit \<Rightarrow> 'mol \<Rightarrow> real" where
  "sa_reward env mol =
     (if \<not> SA_SCORE_AVAILABLE env then 1.0
      else case calculateScore env mol of
             Raises \<Rightarrow> 0.0
           | Returns sa_score \<Rightarrow>
               if sa_score \<le> 4.0 then 2.0 - (sa_score - 1.0) * 0.5
               else if sa_score \<le> 7.0 then max 0.0 (0.5 - (sa_score - 4.0) * 0.15)
               else 0.0)"

definition logp_reward :: "'mol rdkit \<Rightarrow> 'mol \<Rightarrow> real" where
  "logp_reward env mol =
     (if \<not> RDKIT_AVAILABLE env then 0.0
      else case MolLogP env mol of
             Raises \<Rightarrow> 0.0
           | Returns logp \<Rightarrow>
               if 1.0 \<le> logp \<and> logp \<le> 4.0 then 1.5 - \<bar>logp - 2.5\<bar> * 0.3
               else if 0 \<le> logp \<and> logp < 1.0 then logp * 0.8
               else if 4.0 < logp \<and> logp \<le> 5.0 then max 0.0 (0.5 - (logp - 4.0) * 0.3)
               else 0.0)"

definition mw_reward :: "'mol rdkit \<Rightarrow> 'mol \<Rightarrow> real" where
  "mw_reward env mol =
     (if \<not> RDKIT_AVAILABLE env then 0.0
      else case MolWt env mol of
             Raises \<Rightarrow> 0.0
           | Returns mw \<Rightarrow>
               if 200 \<le> mw \<and> mw \<le> 500 then 1.0
               else if 150 \<le> mw \<and> mw < 200 then (mw - 150) / 50 * 0.5
               else if 500 < mw \<and> mw \<le> 600 then max 0.0 (1.0 - (mw - 500) / 100)
               else 0.0)"

definition tpsa_reward :: "'mol rdkit \<Rightarrow> 'mol \<Rightarrow> real" where
  "tpsa_reward env mol =
     (if \<not> RDKIT_AVAILABLE env then 0.0
      else case TPSA env mol of
             Raises \<Rightarrow> 0.0
           | Returns tpsa \<Rightarrow>
               if 40 \<le> tpsa \<and> tpsa \<le> 120 then 1.0
               else if 20 \<le> tpsa \<and> tpsa < 40 then (tpsa - 20) / 20 * 0.5
               else if 120 < tpsa \<and> tpsa \<le> 140 then max 0.0 (1.0 - (tpsa - 120) / 20)
               else 0.0)"

text \<open>The four counted rule-of-five checks, on the values the library returned.\<close>

definition lipinski_violations :: "real \<Rightarrow> real \<Rightarrow> int \<Rightarrow> int \<Rightarrow> nat" where
  "lipinski_violations mw logp hbd hba =
     (if mw > 500 then 1 else 0) + (if logp > 5 then 1 else 0) +
     (if hbd > 5 then 1 else 0) + (if hba > 10 then 1 else 0)"

definition lipinski_reward :: "'mol rdkit \<Rightarrow> 'mol \<Rightarrow> real" where
  "lipinski_reward env mol =
     (if \<not> RDKIT_AVAILABLE env then 0.0
      else case MolWt env mol of Raises \<Rightarrow> 0.0 | Returns mw \<Rightarrow>
          (case MolLogP env mol of Raises \<Rightarrow> 0.0 | Returns logp \<Rightarrow>
          (case NumHDonors env mol of Raises \<Rightarrow> 0.0 | Returns hbd \<Rightarrow>
          (case NumHAcceptors env mol of Raises \<Rightarrow> 0.0 | Returns hba \<Rightarrow>
             (let violations = lipinski_violations mw logp hbd hba in
              if violations = 0 then 1.5
              else if violations = 1 then 1.0
              else if violations = 2 then 0.5
              else 0.0)))))"

definition egfr_specific_reward :: "'mol rdkit \<Rightarrow> 'mol \<Rightarrow> real" where
  "egfr_specific_reward env mol =
     (if \<not> RDKIT_AVAILABLE env then 0.0
      else case NumAromaticRings env mol of Raises \<Rightarrow> 0.0 | Returns aromatic_rings \<Rightarrow>
          (case NumRotatableBonds env mol of Raises \<Rightarrow> 0.0 | Returns rotatable_bonds \<Rightarrow>
             (let score0 = (0.0 :: real);
                  score1 = (if 2 \<le> aromatic_rings \<and> aromatic_rings \<le> 4 then score0 + 0.6
                            else if aromatic_rings = 1 \<or> aromatic_rings = 5 then score0 + 0.3
                            else score0)
              in if 5 \<le> rotatable_bonds \<and> rotatable_bonds \<le> 10 then score1 + 0.4
                 else if (3 \<le> rotatable_bonds \<and> rotatable_bonds < 5) \<or>
                         (10 < rotatable_bonds \<and> rotatable_bonds \<le> 12) then score1 + 0.2
                 else score1)))"

text \<open>\<open>chem.compute_score(solution_str, ground_truth)\<close>.\<close>

definition chem_compute_score :: "'mol rdkit \<Rightarrow> string \<Rightarrow> 'g \<Rightarrow> real" where
  "chem_compute_score env solution_str ground_truth =
     (if \<not> RDKIT_AVAILABLE env then - 5.0
      else case check_format solution_str of
             (format_reward, None) \<Rightarrow> format_reward
           | (format_reward, Some smiles) \<Rightarrow>
               (case check_validity env smiles of
                  (validity_reward, None) \<Rightarrow> format_reward + validity_reward
                | (validity_reward, Some mol) \<Rightarrow>
                    format_reward + validity_reward + qed_reward env mol + sa_reward env mol +
                    logp_reward env mol + mw_reward env mol + tpsa_reward env mol +
                    lipinski_reward env mol + egfr_specific_reward env mol))"

section \<open>The reward managers\<close>

text \<open>
  \<open>_select_rm_score_fn(data_source)\<close>. The modules \<open>gsm8k\<close>, \<open>math\<close> and \<open>countdown\<close> are
  not imported by \<open>logic_rl_reward.py\<close>, so naming them raises \<open>NameError\<close>. The scorer
  \<open>kk.compute_score\<close> is not among the sources and is a parameter.
\<close>

definition contains :: "string \<Rightarrow> string \<Rightarrow> bool" where
  "contains sub s \<longleftrightarrow> find_lit sub s \<noteq> None"

definition select_rm_score_fn ::
  "(string \<Rightarrow> 'gt \<Rightarrow> error + real) \<Rightarrow> string \<Rightarrow> error + (string \<Rightarrow> 'gt \<Rightarrow> error + real)" where
  "select_rm_score_fn kk_compute_score data_source =
     (if data_source = ''openai/gsm8k'' then Inl NameError
      else if data_source = ''lighteval/MATH'' then Inl NameError
      else if contains ''countdown'' data_source then Inl NameError
      else if contains ''kk'' data_source then Inr kk_compute_score
      else if contains ''rule'' data_source then Inr rule_compute_score
      else Inl NotImplementedError)"

text \<open>
  One sample of a batch: the token rows, the attention mask over prompt and response
  positions (0 or 1 each), the ground truth and the data-source tag. A batch is the
  list of its samples and, when present, the precomputed scores \<open>rm_scores\<close>. The
  tokenizer is a parameter \<open>decode\<close>. The managers' printing is left out.
\<close>

record 'gt data_item =
  prompts :: "nat list"
  responses :: "nat list"
  attention_mask :: "nat list"
  ground_truth :: 'gt
  data_source :: string

record 'gt data_proto =
  items :: "'gt data_item list"
  rm_scores :: "real list list option"

datatype reward_result =
  Tensor "real list list"
| Dict "real list list" "(string \<times> real list) list"

text \<open>\<open>torch.zeros_like(data.batch["responses"])\<close>.\<close>

definition zeros_like :: "'gt data_item list \<Rightarrow> real list list" where
  "zeros_like ds = map (\<lambda>d. replicate (length (responses d)) 0) ds"

text \<open>
  \<open>reward_tensor[i, j] = v\<close>: a negative index counts from the end of the row, an index
  outside the row raises \<open>IndexError\<close>.
\<close>

definition tensor_setitem :: "real list list \<Rightarrow> nat \<Rightarrow> int \<Rightarrow> real \<Rightarrow> error + real list list" where
  "tensor_setitem t i j v =
     (if i < length t then
        (let n = int (length (t ! i)); k = (if j < 0 then j + n else j)
         in if 0 \<le> k \<and> k < n then Inr (t[i := (t ! i)[nat k := v]]) else Inl IndexError)
      else Inl IndexError)"

text \<open>The slice \<open>xs[-n:]\<close> for \<open>n \<ge> 0\<close>: the last \<open>n\<close> elements, and all of \<open>xs\<close> for \<open>n = 0\<close>.\<close>

definition slice_last :: "nat \<Rightarrow> 'a list \<Rightarrow> 'a list" where
  "slice_last n xs = (if n = 0 then xs else drop (length xs - n) xs)"

definition valid_response_length :: "'gt data_item \<Rightarrow> nat" where
  "valid_response_length data_item =
     sum_list (drop (length (prompts data_item)) (attention_mask data_item))"

definition response_str :: "(nat list \<Rightarrow> string) \<Rightarrow> 'gt data_item \<Rightarrow> string" where
  "response_str decode data_item =
     decode (take (valid_response_length data_item) (responses data_item))"

definition prompt_str :: "(nat list \<Rightarrow> string) \<Rightarrow> 'gt data_item \<Rightarrow> string" where
  "prompt_str decode data_item =
     (let prompt_ids = prompts data_item;
          prompt_length = length prompt_ids;
          valid_prompt_length = sum_list (take prompt_length (attention_mask data_item))
      in decode (slice_last valid_prompt_length prompt_ids))"

text \<open>The loop of \<open>ChemRewardManager.__call__\<close> from sample \<open>i\<close> on.\<close>

fun chem_loop ::
  "'mol rdkit \<Rightarrow> (nat list \<Rightarrow> string) \<Rightarrow> nat \<Rightarrow> 'gt data_item list \<Rightarrow>
   real list list \<Rightarrow> real list \<Rightarrow> error + (real list list \<times> real list)" where
  "chem_loop env decode i [] reward_tensor chem_scores = Inr (reward_tensor, chem_scores)"
| "chem_loop env decode i (data_item # rest) reward_tensor chem_scores =
     (let score = chem_compute_score env (response_str decode data_item) (ground_truth data_item)
      in and_then
           (tensor_setitem reward_tensor i (int (valid_response_length data_item) - 1) score)
           (\<lambda>reward_tensor'.
              chem_loop env decode (Suc i) rest reward_tensor' (chem_scores @ [score])))"

text \<open>
  \<open>ChemRewardManager.__call__(data, return_dict)\<close>. The summary line printed after the loop
  takes the minimum of the grid, which raises on a grid without elements.
\<close>

definition chem_reward_call ::
  "'mol rdkit \<Rightarrow> (nat list \<Rightarrow> string) \<Rightarrow> 'gt data_proto \<Rightarrow> bool \<Rightarrow> error + reward_result" where
  "chem_reward_call env decode data return_dict =
     (case rm_scores data of
        Some scores \<Rightarrow> Inr (if return_dict then Dict scores [] else Tensor scores)
      | None \<Rightarrow>
          and_then (chem_loop env decode 0 (items data) (zeros_like (items data)) [])
            (\<lambda>(reward_tensor, chem_scores).
               if concat reward_tensor = [] then Inl RuntimeError
               else Inr (if return_dict then Dict reward_tensor [(''chem_score'', chem_scores)]
                         else Tensor reward_tensor)))"

text \<open>The loop of \<open>LogicRLRewardManager.__call__\<close> from sample \<open>i\<close> on.\<close>

fun logic_rl_loop ::
  "(string \<Rightarrow> 'gt \<Rightarrow> error + real) \<Rightarrow> (nat list \<Rightarrow> string) \<Rightarrow> nat \<Rightarrow> 'gt data_item list \<Rightarrow>
   real list list \<Rightarrow> real list \<Rightarrow> error + (real list list \<times> real list)" where
  "logic_rl_loop kk_compute_score decode i [] reward_tensor scores = Inr (reward_tensor, scores)"
| "logic_rl_loop kk_compute_score decode i (data_item # rest) reward_tensor scores =
     and_then (select_rm_score_fn kk_compute_score ''kk'') (\<lambda>compute_score_fn.
     and_then (compute_score_fn (response_str decode data_item) (ground_truth data_item)) (\<lambda>score.
     and_then
       (tensor_setitem reward_tensor i (int (valid_response_length data_item) - 1) score)
       (\<lambda>reward_tensor'.
          logic_rl_loop kk_compute_score decode (Suc i) rest reward_tensor' (scores @ [score]))))"

text \<open>\<open>LogicRLRewardManager.__call__(data, return_dict)\<close>.\<close>

definition logic_rl_reward_call ::
  "(string \<Rightarrow> 'gt \<Rightarrow> error + real) \<Rightarrow> (nat list \<Rightarrow> string) \<Rightarrow> 'gt data_proto \<Rightarrow> bool \<Rightarrow>
   error + reward_result" where
  "logic_rl_reward_call kk_compute_score decode data return_dict =
     (case rm_scores data of
        Some scores \<Rightarrow> Inr (if return_dict then Dict scores [] else Tensor scores)
      | None \<Rightarrow>
          and_then (logic_rl_loop kk_compute_score decode 0 (items data) (zeros_like (items data)) [])
            (\<lambda>(reward_tensor, scores).
               Inr (if return_dict then Dict reward_tensor [(''logic_rl_score'', scores)]
                    else Tensor reward_tensor)))"

section \<open>Notions used in the statements\<close>

text \<open>
  What the format stage asks of a response, in the words of its description: exactly one
  opening and one closing tag (in any letter case, counted as \<open>re.findall\<close> counts them),
  the opening one before the closing one, and between them a text that is not empty once
  trimmed.
\<close>

definition one_smiles_pair :: "string \<Rightarrow> bool" where
  "one_smiles_pair str \<longleftrightarrow>
     length (finditer True ''<SMILES>'' str) = 1 \<and>
     length (finditer True ''</SMILES>'' str) = 1 \<and>
     (\<exists>pre opn inner cls post.
        str = pre @ opn @ inner @ cls @ post \<and>
        lower opn = lower ''<SMILES>'' \<and> lower cls = lower ''</SMILES>'' \<and>
        strip inner \<noteq> [])"

text \<open>
  A library for the examples: it is present, it parses no SMILES text and every property
  call raises; \<open>sa\<close> says whether the synthetic-accessibility estimator is present.
\<close>

definition raising_rdkit :: "bool \<Rightarrow> unit rdkit" where
  "raising_rdkit sa = \<lparr>RDKIT_AVAILABLE = True, SA_SCORE_AVAILABLE = sa,
     MolFromSmiles = (\<lambda>s. Returns None), QED_qed = (\<lambda>m. Raises), calculateScore = (\<lambda>m. Raises),
     MolLogP = (\<lambda>m. Raises), MolWt = (\<lambda>m. Raises), TPSA = (\<lambda>m. Raises),
     NumHDonors = (\<lambda>m. Raises), NumHAcceptors = (\<lambda>m. Raises),
     NumAromaticRings = (\<lambda>m. Raises), NumRotatableBonds = (\<lambda>m. Raises)\<rparr>"

text \<open>
  The column that \<open>reward_tensor[i, valid_response_length - 1] = score\<close> writes: index
  \<open>-1\<close>, the last column, when no response token is valid. \<open>reward_row\<close> is the row of the
  grid after that write, and \<open>row_writable\<close> says that the write is inside the row.
\<close>

definition written_column :: "'gt data_item \<Rightarrow> nat" where
  "written_column d =
     (if valid_response_length d = 0 then length (responses d) - 1
      else valid_response_length d - 1)"

definition reward_row :: "'gt data_item \<Rightarrow> real \<Rightarrow> real list" where
  "reward_row d v = (replicate (length (responses d)) 0)[written_column d := v]"

definition row_writable :: "'gt data_item \<Rightarrow> bool" where
  "row_writable d \<longleftrightarrow> responses d \<noteq> [] \<and> valid_response_length d \<le> length (responses d)"

text \<open>
  Batches for the examples: samples with one prompt token and two response positions, a
  scorer that stands for \<open>kk.compute_score\<close> and returns 1.
\<close>

definition sample :: "nat list \<Rightarrow> string \<Rightarrow> unit data_item" where
  "sample am src = \<lparr>prompts = [1], responses = [60, 62], attention_mask = am,
     ground_truth = (), data_source = src\<rparr>"

definition kk_one :: "string \<Rightarrow> unit \<Rightarrow> error + real" where
  "kk_one response g = Inr 1"

definition batch :: "unit data_item list \<Rightarrow> unit data_proto" where
  "batch ds = \<lparr>items = ds, rm_scores = None\<rparr>"

section \<open>Properties of the scorers\<close>

lemmas rule_consts =
  rule_REWARD_TAG_PRESENT_def rule_PENALTY_TAG_MISSING_OR_DUPLICATE_def
  rule_REWARD_ORDER_CORRECT_def rule_PENALTY_ORDER_INCORRECT_def
  rule_REWARD_CONTENT_NON_EMPTY_THINK_def rule_PENALTY_CONTENT_EMPTY_THINK_def
  rule_REWARD_CONTENT_NON_EMPTY_ANSWER_def rule_PENALTY_CONTENT_EMPTY_ANSWER_def

lemmas newkk_consts =
  newkk_REWARD_TAG_PRESENT_def newkk_PENALTY_TAG_MISSING_OR_DUPLICATE_def
  newkk_REWARD_ORDER_CORRECT_def newkk_PENALTY_ORDER_INCORRECT_def
  newkk_PENALTY_CONTENT_EMPTY_ANSWER_def newkk_REWARD_FOR_EACH_CORRECT_ASSERTION_def
  newkk_MIN_THINK_REWARD_def newkk_MAX_THINK_REWARD_def newkk_TARGET_THINK_LENGTH_def
  newkk_REWARD_FOR_KEYWORD_IN_THINK_def

lemmas tag_defs = critical_tags_data_def RE_THINK_START_def RE_THINK_END_def
  RE_ANSWER_START_def RE_ANSWER_END_def

lemmas scan_defs = finditer_def lit_match_def

lemmas char_defs = prefix_ci_def lower_def lower_char_def is_word_def is_letter_def
  char_of_def bit_iff_odd

text \<open>Neither tag scorer raises: the four positions are present when they are read.\<close>

lemma rule_compute_score_returns: "\<exists>s. rule_compute_score str g = Inr s"
  by (simp add: rule_compute_score_def tag_defs Let_def and_then_def getitem_def)

lemma newkk_compute_score_returns: "\<exists>s. newkk_compute_score str gt = Inr s"
  by (simp add: newkk_compute_score_def tag_defs Let_def and_then_def getitem_def)

lemma rule_stage1_once:
  assumes "length (finditer False ''<think>'' text) = 1"
    and "length (finditer False ''</think>'' text) = 1"
    and "length (finditer False ''<answer>'' text) = 1"
    and "length (finditer False ''</answer>'' text) = 1"
  shows "rule_stage1 critical_tags_data text 0 Map.empty =
     Inr (4 * rule_REWARD_TAG_PRESENT,
       [''think_start'' \<mapsto> hd (finditer False ''<think>'' text),
        ''think_end'' \<mapsto> hd (finditer False ''</think>'' text),
        ''answer_start'' \<mapsto> hd (finditer False ''<answer>'' text),
        ''answer_end'' \<mapsto> hd (finditer False ''</answer>'' text)])"
  using assms by (simp add: tag_defs Let_def)

lemma newkk_stage1_once:
  assumes "length (finditer False ''<think>'' text) = 1"
    and "length (finditer False ''</think>'' text) = 1"
    and "length (finditer False ''<answer>'' text) = 1"
    and "length (finditer False ''</answer>'' text) = 1"
  shows "newkk_stage1 critical_tags_data text 0 Map.empty =
     Inr (4 * newkk_REWARD_TAG_PRESENT,
       [''think_start'' \<mapsto> hd (finditer False ''<think>'' text),
        ''think_end'' \<mapsto> hd (finditer False ''</think>'' text),
        ''answer_start'' \<mapsto> hd (finditer False ''<answer>'' text),
        ''answer_end'' \<mapsto> hd (finditer False ''</answer>'' text)])"
  using assms by (simp add: tag_defs Let_def)

text \<open>
  Claim C10. The rule scorer's result depends only on the response text: the same text
  with any two ground-truth values gets the same score.
\<close>

theorem rule_score_ignores_ground_truth:
  "rule_compute_score text g1 = rule_compute_score text g2"
  by (simp add: rule_compute_score_def)

lemma rule_compute_score_once:
  assumes "length (finditer False ''<think>'' text) = 1"
    and "length (finditer False ''</think>'' text) = 1"
    and "length (finditer False ''<answer>'' text) = 1"
    and "length (finditer False ''</answer>'' text) = 1"
  shows "rule_compute_score text g =
     (if tags_in_order text
      then Inr (rule_stage3 text (4 * rule_REWARD_TAG_PRESENT + rule_REWARD_ORDER_CORRECT))
      else Inr (4 * rule_REWARD_TAG_PRESENT + rule_PENALTY_ORDER_INCORRECT))"
  by (simp add: rule_compute_score_def rule_stage1_once[OF assms] tags_in_order_def
        and_then_def getitem_def)

lemma newkk_compute_score_once:
  assumes "length (finditer False ''<think>'' text) = 1"
    and "length (finditer False ''</think>'' text) = 1"
    and "length (finditer False ''<answer>'' text) = 1"
    and "length (finditer False ''</answer>'' text) = 1"
  shows "newkk_compute_score text gt =
     (if tags_in_order text
      then Inr (newkk_stage34 text gt (4 * newkk_REWARD_TAG_PRESENT + newkk_REWARD_ORDER_CORRECT))
      else Inr (4 * newkk_REWARD_TAG_PRESENT + newkk_PENALTY_ORDER_INCORRECT))"
  by (simp add: newkk_compute_score_def newkk_stage1_once[OF assms] tags_in_order_def
        and_then_def getitem_def)

text \<open>
  Claim C7. A text in which each of the four tags is matched exactly once, but whose start
  offsets violate think_start < think_end < answer_start < answer_end, scores the four
  per-tag rewards plus the order penalty, in the rule scorer and in the logic-puzzle
  scorer; nothing of the content stage is added.
\<close>

theorem wrong_order_score:
  assumes "length (finditer False ''<think>'' text) = 1"
    and "length (finditer False ''</think>'' text) = 1"
    and "length (finditer False ''<answer>'' text) = 1"
    and "length (finditer False ''</answer>'' text) = 1"
    and "\<not> (hd (finditer False ''<think>'' text) < hd (finditer False ''</think>'' text) \<and>
            hd (finditer False ''</think>'' text) < hd (finditer False ''<answer>'' text) \<and>
            hd (finditer False ''<answer>'' text) < hd (finditer False ''</answer>'' text))"
  shows "rule_compute_score text g =
           Inr (4 * rule_REWARD_TAG_PRESENT + rule_PENALTY_ORDER_INCORRECT) \<and>
         newkk_compute_score text gt =
           Inr (4 * newkk_REWARD_TAG_PRESENT + newkk_PENALTY_ORDER_INCORRECT)"
proof -
  have "\<not> tags_in_order text"
    using assms(5) unfolding tags_in_order_def .
  then show ?thesis
    by (simp add: rule_compute_score_once[OF assms(1-4)] newkk_compute_score_once[OF assms(1-4)])
qed

theorem wrong_order_score_witness:
  "rule_compute_score ''<answer>x</answer><think>y</think>'' () = Inr (- 1) \<and>
   newkk_compute_score ''<answer>x</answer><think>y</think>'' Map.empty = Inr (- 3)"
proof -
  let ?t = "''<answer>x</answer><think>y</think>''"
  have h1: "length (finditer False ''<think>'' ?t) = 1" by (simp add: scan_defs)
  have h2: "length (finditer False ''</think>'' ?t) = 1" by (simp add: scan_defs)
  have h3: "length (finditer False ''<answer>'' ?t) = 1" by (simp add: scan_defs)
  have h4: "length (finditer False ''</answer>'' ?t) = 1" by (simp add: scan_defs)
  have h5: "\<not> (hd (finditer False ''<think>'' ?t) < hd (finditer False ''</think>'' ?t) \<and>
            hd (finditer False ''</think>'' ?t) < hd (finditer False ''<answer>'' ?t) \<and>
            hd (finditer False ''<answer>'' ?t) < hd (finditer False ''</answer>'' ?t))"
    by (simp add: scan_defs)
  show ?thesis
    using wrong_order_score[OF h1 h2 h3 h4 h5, of "()" Map.empty]
    by (simp add: rule_consts newkk_consts)
qed

text \<open>
  Claim C8. The length score of the logic-puzzle scorer is non-decreasing in the length of
  the reasoning block, and equals the maximum reward at every length from the target
  length on.
\<close>

theorem think_length_score_monotone_capped:
  "(m \<le> n \<longrightarrow> newkk_think_length_score m \<le> newkk_think_length_score n) \<and>
   (newkk_TARGET_THINK_LENGTH \<le> real n \<longrightarrow> newkk_think_length_score n = newkk_MAX_THINK_REWARD)"
  by (auto simp: newkk_think_length_score_def newkk_slope_def newkk_consts min_def)

theorem think_length_score_monotone_capped_witness:
  "newkk_think_length_score 0 \<le> newkk_think_length_score 1000 \<and>
   newkk_think_length_score 0 = - 4 \<and> newkk_think_length_score 1000 = 0 \<and>
   newkk_think_length_score 2500 = newkk_MAX_THINK_REWARD"
  using think_length_score_monotone_capped[of 0 1000] think_length_score_monotone_capped[of 0 2500]
  by (simp add: newkk_think_length_score_def newkk_slope_def newkk_consts)

lemmas newkk_eval_defs = newkk_compute_score_def tag_defs scan_defs newkk_consts and_then_def
  getitem_def newkk_stage34_def think_content_def model_answer_text_def gt_map_of_def
  RE_THINK_CONTENT_search_def RE_ANSWER_CONTENT_search_def strip_def isspace_def
  newkk_think_length_score_def newkk_slope_def parse_gt_to_map_def splitlines_def

lemmas rule_eval_defs = rule_compute_score_def tag_defs scan_defs rule_consts and_then_def
  getitem_def rule_stage3_def RE_THINK_CONTENT_search_def RE_ANSWER_CONTENT_search_def
  strip_def isspace_def

text \<open>
  Claim C2. A text in which a tag is missing or duplicated should score exactly the
  missing-or-duplicate penalty. The code adds the penalty to the rewards of the tags that
  came before the failing one in the loop: on the text of the second test case of
  \<open>rule.py\<close> (\<open><think>\<close> once, \<open></think>\<close> missing), for which that file states the
  expected score \<open>-2.0\<close>, the rule scorer returns \<open>0.5 - 2.0\<close> and the logic-puzzle
  scorer \<open>0.5 - 4.0\<close>.
\<close>

theorem missing_tag_after_present_tag:
  "rule_compute_score ''
<think>
Thinking...
<answer>
Answer.
</answer>
'' () = Inr (- 1.5) \<and>
   newkk_compute_score ''
<think>
Thinking...
<answer>
Answer.
</answer>
'' Map.empty = Inr (- 3.5)"
  by (simp add: rule_eval_defs newkk_eval_defs)

text \<open>
  With an empty role map and a non-empty answer block the logic-puzzle scorer adds no
  empty-answer penalty: the score is \<open>2 + 1 + (0.004 - 4)\<close>, not that sum minus 2.
\<close>

theorem empty_gt_map_no_penalty_counterexample:
  "gt_map_of Map.empty = [] \<and>
   model_answer_text ''<think>a</think><answer>b</answer>'' = ''b'' \<and>
   newkk_compute_score ''<think>a</think><answer>b</answer>'' Map.empty = Inr (- 0.996) \<and>
   newkk_compute_score ''<think>a</think><answer>b</answer>'' Map.empty \<noteq>
     Inr (4 * newkk_REWARD_TAG_PRESENT + newkk_REWARD_ORDER_CORRECT +
          newkk_think_length_score (length (think_content ''<think>a</think><answer>b</answer>'')) +
          newkk_PENALTY_CONTENT_EMPTY_ANSWER)"
  by (simp add: newkk_eval_defs)

text \<open>
  Claim C5, amended. For a text that passes the structural and ordering checks, if the
  answer block is empty or the ground-truth role map is empty, the logic-puzzle scorer
  short-circuits: no assertion score is added. The empty-answer penalty is added exactly
  when the answer block is empty; with an empty role map and a non-empty answer block
  nothing is added in place of the assertion score.
\<close>

theorem empty_answer_short_circuit:
  assumes "length (finditer False ''<think>'' text) = 1"
    and "length (finditer False ''</think>'' text) = 1"
    and "length (finditer False ''<answer>'' text) = 1"
    and "length (finditer False ''</answer>'' text) = 1"
    and "tags_in_order text"
    and "model_answer_text text = [] \<or> gt_map_of gt = []"
  shows "newkk_compute_score text gt =
     Inr (4 * newkk_REWARD_TAG_PRESENT + newkk_REWARD_ORDER_CORRECT +
          newkk_think_length_score (length (think_content text)) +
          (if gt_map_of gt \<noteq> []
           then newkk_think_quality_score (map fst (gt_map_of gt)) (lower (think_content text))
           else 0) +
          (if model_answer_text text = [] then newkk_PENALTY_CONTENT_EMPTY_ANSWER else 0))"
  using assms(5,6)
  by (auto simp: newkk_compute_score_once[OF assms(1-4)] newkk_stage34_def Let_def)

theorem empty_answer_short_circuit_witness:
  "gt_map_of Map.empty = [] \<and>
   newkk_compute_score ''<think>a</think><answer>b</answer>'' Map.empty = Inr (- 0.996) \<and>
   model_answer_text ''<think>a</think><answer> </answer>'' = [] \<and>
   newkk_compute_score ''<think>a</think><answer> </answer>''
     [''solution_text_format'' \<mapsto> ''Lily is a knave''] = Inr (- 2.996)"
proof -
  let ?t = "''<think>a</think><answer>b</answer>''"
  let ?u = "''<think>a</think><answer> </answer>''"
  let ?g = "[''solution_text_format'' \<mapsto> ''Lily is a knave'']"
  have t: "length (finditer False ''<think>'' ?t) = 1" "length (finditer False ''</think>'' ?t) = 1"
    "length (finditer False ''<answer>'' ?t) = 1" "length (finditer False ''</answer>'' ?t) = 1"
    "tags_in_order ?t"
    by (simp_all add: scan_defs tags_in_order_def)
  have u: "length (finditer False ''<think>'' ?u) = 1" "length (finditer False ''</think>'' ?u) = 1"
    "length (finditer False ''<answer>'' ?u) = 1" "length (finditer False ''</answer>'' ?u) = 1"
    "tags_in_order ?u"
    by (simp_all add: scan_defs tags_in_order_def)
  have g0: "gt_map_of Map.empty = []"
    by (simp add: gt_map_of_def parse_gt_to_map_def splitlines_def)
  have g1: "gt_map_of ?g = [(''lily'', ''knave'')]"
    by (simp add: gt_map_of_def parse_gt_to_map_def splitlines_def match_gt_at_def at_boundary_def
          char_defs isspace_def is_linebreak_def)
  have a: "model_answer_text ?u = []"
    by (simp add: model_answer_text_def RE_ANSWER_CONTENT_search_def strip_def isspace_def)
  have c: "think_content ?t = ''a''" "think_content ?u = ''a''" "model_answer_text ?t = ''b''"
    by (simp_all add: think_content_def model_answer_text_def RE_THINK_CONTENT_search_def
          RE_ANSWER_CONTENT_search_def strip_def isspace_def)
  show ?thesis
    using empty_answer_short_circuit[OF t, of Map.empty] empty_answer_short_circuit[OF u, of ?g]
    by (simp add: g0 g1 a c lower_def lower_char_def newkk_consts newkk_think_length_score_def
          newkk_slope_def match_word_at_def lit_match_def)
qed

lemma finditer_from_exact:
  "i \<in> set (finditer_from False pat skip k str) \<Longrightarrow> k \<le> i \<and> prefix pat (drop (i - k) str)"
proof (induction str arbitrary: skip k)
  case Nil
  then show ?case by simp
next
  case (Cons c cs)
  show ?case
  proof (cases "i = k")
    case True
    with Cons.prems show ?thesis
      using Cons.IH[of "skip - 1" "Suc k"] Cons.IH[of "length pat - 1" "Suc k"]
        Cons.IH[of 0 "Suc k"]
      by (auto simp: lit_match_def split: if_splits)
  next
    case False
    with Cons.prems obtain s where "i \<in> set (finditer_from False pat s (Suc k) cs)"
      by (auto split: if_splits)
    then have "Suc k \<le> i \<and> prefix pat (drop (i - Suc k) cs)"
      by (rule Cons.IH)
    then show ?thesis by (simp add: Suc_diff_le drop_Cons')
  qed
qed

lemma finditer_exact:
  "i \<in> set (finditer False pat text) \<Longrightarrow> prefix pat (drop i text)"
  using finditer_from_exact[of i pat 0 0 "text"] by (simp add: finditer_def)

lemma prefix_drop_sublist: "prefix pat (drop i text) \<Longrightarrow> sublist pat text"
proof -
  assume "prefix pat (drop i text)"
  then obtain ss where "drop i text = pat @ ss" by (auto simp: prefix_def)
  then have "text = take i text @ pat @ ss" by (metis append_take_drop_id)
  then show ?thesis unfolding sublist_def by blast
qed

lemma finditer_no_sublist:
  assumes "\<not> sublist pat text" shows "finditer False pat text = []"
proof (rule ccontr)
  assume "finditer False pat text \<noteq> []"
  then obtain i where "i \<in> set (finditer False pat text)"
    by (cases "finditer False pat text") auto
  then show False using assms finditer_exact prefix_drop_sublist by blast
qed

text \<open>
  A text with each delimiter exactly once in upper case, in the correct order, is rejected
  with the missing-tag penalty, while the same text in lower case is accepted.
\<close>

theorem upper_case_tags_rejected_counterexample:
  "length (finditer True ''<think>'' ''<THINK>a</THINK><ANSWER>b</ANSWER>'') = 1 \<and>
   length (finditer True ''</think>'' ''<THINK>a</THINK><ANSWER>b</ANSWER>'') = 1 \<and>
   length (finditer True ''<answer>'' ''<THINK>a</THINK><ANSWER>b</ANSWER>'') = 1 \<and>
   length (finditer True ''</answer>'' ''<THINK>a</THINK><ANSWER>b</ANSWER>'') = 1 \<and>
   rule_compute_score ''<THINK>a</THINK><ANSWER>b</ANSWER>'' () =
     Inr rule_PENALTY_TAG_MISSING_OR_DUPLICATE \<and>
   newkk_compute_score ''<THINK>a</THINK><ANSWER>b</ANSWER>'' Map.empty =
     Inr newkk_PENALTY_TAG_MISSING_OR_DUPLICATE \<and>
   rule_compute_score ''<think>a</think><answer>b</answer>'' () = Inr 3.7 \<and>
   newkk_compute_score ''<think>a</think><answer>b</answer>'' Map.empty = Inr (- 0.996)"
  by (simp add: rule_eval_defs newkk_eval_defs char_defs)

text \<open>
  Claim C3, amended. The scan for the four delimiter literals is case-sensitive: every
  counted match is an occurrence of the literal in exactly its lower-case spelling; a text
  that does not contain the lower-case literal \<open><think>\<close> (whatever other casing of it
  occurs) is rejected with the missing-tag penalty; and a text in which each lower-case
  delimiter is matched exactly once, in the correct order, is accepted, that is, scored by
  the content stages on top of the four tag rewards and the order reward.
\<close>

theorem tag_scan_case_sensitive:
  "(\<forall>i \<in> set (finditer False pat text). prefix pat (drop i text)) \<and>
   (\<not> sublist ''<think>'' text \<longrightarrow>
      rule_compute_score text g = Inr rule_PENALTY_TAG_MISSING_OR_DUPLICATE \<and>
      newkk_compute_score text gt = Inr newkk_PENALTY_TAG_MISSING_OR_DUPLICATE) \<and>
   (length (finditer False ''<think>'' text) = 1 \<and>
    length (finditer False ''</think>'' text) = 1 \<and>
    length (finditer False ''<answer>'' text) = 1 \<and>
    length (finditer False ''</answer>'' text) = 1 \<and> tags_in_order text \<longrightarrow>
      rule_compute_score text g =
        Inr (rule_stage3 text (4 * rule_REWARD_TAG_PRESENT + rule_REWARD_ORDER_CORRECT)) \<and>
      newkk_compute_score text gt =
        Inr (newkk_stage34 text gt (4 * newkk_REWARD_TAG_PRESENT + newkk_REWARD_ORDER_CORRECT)))"
proof (intro conjI ballI impI)
  fix i assume "i \<in> set (finditer False pat text)"
  then show "prefix pat (drop i text)" by (rule finditer_exact)
next
  assume "\<not> sublist ''<think>'' text"
  then have e: "finditer False ''<think>'' text = []" by (rule finditer_no_sublist)
  show "rule_compute_score text g = Inr rule_PENALTY_TAG_MISSING_OR_DUPLICATE"
    by (simp add: rule_compute_score_def tag_defs e)
  show "newkk_compute_score text gt = Inr newkk_PENALTY_TAG_MISSING_OR_DUPLICATE"
    by (simp add: newkk_compute_score_def tag_defs e)
next
  assume a: "length (finditer False ''<think>'' text) = 1 \<and>
    length (finditer False ''</think>'' text) = 1 \<and>
    length (finditer False ''<answer>'' text) = 1 \<and>
    length (finditer False ''</answer>'' text) = 1 \<and> tags_in_order text"
  then show "rule_compute_score text g =
        Inr (rule_stage3 text (4 * rule_REWARD_TAG_PRESENT + rule_REWARD_ORDER_CORRECT))"
    by (simp add: rule_compute_score_once)
  from a show "newkk_compute_score text gt =
        Inr (newkk_stage34 text gt (4 * newkk_REWARD_TAG_PRESENT + newkk_REWARD_ORDER_CORRECT))"
    by (simp add: newkk_compute_score_once)
qed

theorem tag_scan_case_sensitive_witness:
  "\<not> sublist ''<think>'' ''<THINK>a</THINK><ANSWER>b</ANSWER>'' \<and>
   rule_compute_score ''<THINK>a</THINK><ANSWER>b</ANSWER>'' () = Inr (- 2) \<and>
   newkk_compute_score ''<THINK>a</THINK><ANSWER>b</ANSWER>'' Map.empty = Inr (- 4) \<and>
   finditer False ''<think>'' ''<think>a</think><answer>b</answer>'' = [0] \<and>
   prefix ''<think>'' (drop 0 ''<think>a</think><answer>b</answer>'') \<and>
   tags_in_order ''<think>a</think><answer>b</answer>'' \<and>
   rule_compute_score ''<think>a</think><answer>b</answer>'' () = Inr 3.7"
proof -
  let ?u = "''<THINK>a</THINK><ANSWER>b</ANSWER>''"
  let ?l = "''<think>a</think><answer>b</answer>''"
  have n: "\<not> sublist ''<think>'' ?u" by (simp add: sublist_Cons_right)
  have f: "finditer False ''<think>'' ?l = [0]" by (simp add: scan_defs)
  have c: "length (finditer False ''<think>'' ?l) = 1 \<and>
    length (finditer False ''</think>'' ?l) = 1 \<and>
    length (finditer False ''<answer>'' ?l) = 1 \<and>
    length (finditer False ''</answer>'' ?l) = 1 \<and> tags_in_order ?l"
    by (simp add: scan_defs tags_in_order_def)
  have s: "rule_stage3 ?l (4 * rule_REWARD_TAG_PRESENT + rule_REWARD_ORDER_CORRECT) = 3.7"
    by (simp add: rule_eval_defs)
  show ?thesis
    using tag_scan_case_sensitive[of "''<think>''" ?u "()" Map.empty]
      tag_scan_case_sensitive[of "''<think>''" ?l "()" Map.empty] n f c s
    by (simp add: rule_consts newkk_consts)
qed

section \<open>Properties of the molecule scorer\<close>

lemmas reward_defs = qed_reward_def sa_reward_def logp_reward_def mw_reward_def tpsa_reward_def
  lipinski_reward_def egfr_specific_reward_def

text \<open>
  Claim C9. Each of the seven property functions returns a value, and a neutral or zero
  one (never negative), when the library is unavailable or a call it makes raises: 0 for
  each, except that the synthetic-accessibility reward is the fixed value 1 when the
  estimator is unavailable (and 0 when its call raises).
\<close>

theorem property_rewards_degrade:
  "(\<not> RDKIT_AVAILABLE env \<or> QED_qed env mol = Raises \<longrightarrow> qed_reward env mol = 0) \<and>
   (\<not> SA_SCORE_AVAILABLE env \<longrightarrow> sa_reward env mol = 1) \<and>
   (SA_SCORE_AVAILABLE env \<and> calculateScore env mol = Raises \<longrightarrow> sa_reward env mol = 0) \<and>
   (\<not> RDKIT_AVAILABLE env \<or> MolLogP env mol = Raises \<longrightarrow> logp_reward env mol = 0) \<and>
   (\<not> RDKIT_AVAILABLE env \<or> MolWt env mol = Raises \<longrightarrow> mw_reward env mol = 0) \<and>
   (\<not> RDKIT_AVAILABLE env \<or> TPSA env mol = Raises \<longrightarrow> tpsa_reward env mol = 0) \<and>
   (\<not> RDKIT_AVAILABLE env \<or> MolWt env mol = Raises \<or> MolLogP env mol = Raises \<or>
      NumHDonors env mol = Raises \<or> NumHAcceptors env mol = Raises \<longrightarrow>
      lipinski_reward env mol = 0) \<and>
   (\<not> RDKIT_AVAILABLE env \<or> NumAromaticRings env mol = Raises \<or>
      NumRotatableBonds env mol = Raises \<longrightarrow> egfr_specific_reward env mol = 0)"
  by (auto simp: reward_defs split: outcome.splits)

theorem property_rewards_degrade_witness:
  "qed_reward (raising_rdkit True) () = 0 \<and> sa_reward (raising_rdkit False) () = 1 \<and>
   sa_reward (raising_rdkit True) () = 0 \<and> logp_reward (raising_rdkit True) () = 0 \<and>
   mw_reward (raising_rdkit True) () = 0 \<and> tpsa_reward (raising_rdkit True) () = 0 \<and>
   lipinski_reward (raising_rdkit True) () = 0 \<and> egfr_specific_reward (raising_rdkit True) () = 0"
  using property_rewards_degrade[of "raising_rdkit True" "()"]
    property_rewards_degrade[of "raising_rdkit False" "()"]
  by (simp add: raising_rdkit_def)

lemma strip_Nil_iff: "strip s = [] \<longleftrightarrow> (\<forall>c \<in> set s. isspace c)"
proof
  assume e: "strip s = []"
  show "\<forall>c \<in> set s. isspace c"
  proof (rule ccontr)
    assume "\<not> (\<forall>c \<in> set s. isspace c)"
    then have n: "dropWhile isspace s \<noteq> []" by (simp add: dropWhile_eq_Nil_conv)
    then have "\<not> isspace (hd (dropWhile isspace s))" by (rule hd_dropWhile)
    moreover from n have "hd (dropWhile isspace s) \<in> set (rev (dropWhile isspace s))" by simp
    moreover from e have "\<forall>c \<in> set (rev (dropWhile isspace s)). isspace c"
      unfolding strip_def by (simp add: dropWhile_eq_Nil_conv)
    ultimately show False by blast
  qed
next
  assume "\<forall>c \<in> set s. isspace c"
  then have d: "dropWhile isspace s = []" by (simp add: dropWhile_eq_Nil_conv)
  show "strip s = []" unfolding strip_def d by simp
qed

lemma lit_match_ci_split:
  assumes "lit_match True pat s"
  shows "\<exists>m tl. s = m @ tl \<and> lower m = lower pat"
proof -
  from assms obtain zs where z: "lower s = lower pat @ zs"
    by (auto simp: lit_match_def prefix_ci_def prefix_def)
  then have "take (length pat) (lower s) = lower pat"
    by (simp add: lower_def)
  then have "lower (take (length pat) s) = lower pat"
    by (simp add: lower_def take_map)
  moreover have "s = take (length pat) s @ drop (length pat) s" by simp
  ultimately show ?thesis by blast
qed

lemma smiles_tail_split:
  assumes "smiles_tail rest"
  shows "\<exists>ws cls tl. rest = ws @ cls @ tl \<and> lower cls = lower ''</SMILES>''"
proof -
  from assms obtain cls tl where "dropWhile isspace rest = cls @ tl"
    "lower cls = lower ''</SMILES>''"
    unfolding smiles_tail_def using lit_match_ci_split by blast
  moreover have "rest = takeWhile isspace rest @ dropWhile isspace rest" by simp
  ultimately show ?thesis by metis
qed

lemma smiles_group_sound:
  "smiles_group taken rest = Some g \<Longrightarrow>
   \<exists>mid ws cls tl. g = taken @ mid \<and> rest = mid @ ws @ cls @ tl \<and>
      lower cls = lower ''</SMILES>''"
proof (induction rest arbitrary: taken)
  case Nil
  then show ?case by simp
next
  case (Cons c cs)
  show ?case
  proof (cases "smiles_tail cs")
    case True
    with Cons.prems have g: "g = taken @ [c]" by simp
    from True obtain ws cls tl where "cs = ws @ cls @ tl" "lower cls = lower ''</SMILES>''"
      using smiles_tail_split by blast
    with g show ?thesis by (intro exI[of _ "[c]"] exI[of _ ws] exI[of _ cls] exI[of _ tl]) simp
  next
    case False
    with Cons.prems have "smiles_group (taken @ [c]) cs = Some g" by simp
    from Cons.IH[OF this] obtain mid ws cls tl where
      "g = (taken @ [c]) @ mid" "cs = mid @ ws @ cls @ tl" "lower cls = lower ''</SMILES>''"
      by blast
    then show ?thesis
      by (intro exI[of _ "c # mid"] exI[of _ ws] exI[of _ cls] exI[of _ tl]) simp
  qed
qed

lemma smiles_lead_sound:
  "smiles_lead k rest = Some g \<Longrightarrow> \<exists>j. smiles_group [] (drop j rest) = Some g"
proof (induction k)
  case 0
  then show ?case by (metis drop_0 smiles_lead.simps(1))
next
  case (Suc k)
  then show ?case by (auto split: option.splits)
qed

lemma search_smiles_sound:
  "search_smiles str = Some g \<Longrightarrow>
   \<exists>pre opn inner cls post. str = pre @ opn @ inner @ cls @ post \<and>
      lower opn = lower ''<SMILES>'' \<and> lower cls = lower ''</SMILES>'' \<and>
      set g \<subseteq> set inner"
proof (induction str)
  case Nil
  then show ?case by simp
next
  case (Cons c cs)
  let ?s = "c # cs"
  show ?case
  proof (cases "lit_match True ''<SMILES>'' ?s \<and>
      smiles_lead (length (takeWhile isspace (drop 8 ?s))) (drop 8 ?s) = Some g")
    case True
    then obtain j where j: "smiles_group [] (drop j (drop 8 ?s)) = Some g"
      using smiles_lead_sound by blast
    from smiles_group_sound[OF j] obtain ws cls tl where
      r: "drop j (drop 8 ?s) = g @ ws @ cls @ tl" "lower cls = lower ''</SMILES>''"
      by auto
    from True obtain opn rest where o: "?s = opn @ rest" "lower opn = lower ''<SMILES>''"
      using lit_match_ci_split by blast
    from o(2) have "length (lower opn) = length (lower ''<SMILES>'')" by simp
    then have "length opn = 8" by (simp add: lower_def)
    with o have "drop 8 ?s = rest" by simp
    with r have "rest = take j rest @ g @ ws @ cls @ tl" by (metis append_take_drop_id)
    with o have "?s = [] @ opn @ (take j rest @ g @ ws) @ cls @ tl" by simp
    moreover have "set g \<subseteq> set (take j rest @ g @ ws)" by auto
    ultimately show ?thesis using o(2) r(2) by blast
  next
    case False
    with Cons.prems have "search_smiles cs = Some g"
      by (auto split: if_splits option.splits)
    from Cons.IH[OF this] obtain pre opn inner cls post where
      "cs = pre @ opn @ inner @ cls @ post" "lower opn = lower ''<SMILES>''"
      "lower cls = lower ''</SMILES>''" "set g \<subseteq> set inner" by blast
    then show ?thesis
      by (intro exI[of _ "c # pre"] exI[of _ opn] exI[of _ inner] exI[of _ cls] exI[of _ post])
        simp
  qed
qed

lemma check_format_cases:
  "check_format str = (- 5.0, None) \<or>
   (\<exists>smiles. check_format str = (1.0, Some smiles) \<and> one_smiles_pair str)"
proof (cases "length (finditer True ''<SMILES>'' str) = 1 \<and>
    length (finditer True ''</SMILES>'' str) = 1")
  case False
  then show ?thesis by (auto simp: check_format_def)
next
  case c: True
  show ?thesis
  proof (cases "search_smiles str")
    case None
    then show ?thesis by (simp add: check_format_def)
  next
    case (Some g)
    show ?thesis
    proof (cases "strip g = []")
      case True
      with Some show ?thesis by (simp add: check_format_def)
    next
      case False
      then obtain x where x: "x \<in> set g" "\<not> isspace x" by (auto simp: strip_Nil_iff)
      from search_smiles_sound[OF Some] obtain pre opn inner cls post where
        d: "str = pre @ opn @ inner @ cls @ post" "lower opn = lower ''<SMILES>''"
        "lower cls = lower ''</SMILES>''" "set g \<subseteq> set inner" by blast
      with x have "strip inner \<noteq> []" by (auto simp: strip_Nil_iff)
      with c d have "one_smiles_pair str" unfolding one_smiles_pair_def by blast
      moreover from c Some False have "check_format str = (1.0, Some (strip g))"
        by (simp add: check_format_def)
      ultimately show ?thesis by blast
    qed
  qed
qed

text \<open>
  Claim C6. The molecule scorer is staged. A text that does not contain exactly one
  \<open><SMILES>\<close>...\<open></SMILES>\<close> pair with non-empty inner text scores exactly the
  format-failure penalty. A text whose extracted SMILES the library fails to parse (the
  call raises or returns nothing) scores exactly the format reward plus the validity
  penalty, whatever the property calls would return.
\<close>

theorem molecule_scorer_staged:
  "(\<not> one_smiles_pair str \<longrightarrow> chem_compute_score env str g = - 5.0) \<and>
   (RDKIT_AVAILABLE env \<and> check_format str = (1.0, Some smiles) \<and>
    (MolFromSmiles env smiles = Raises \<or> MolFromSmiles env smiles = Returns None) \<longrightarrow>
      chem_compute_score env str g = 1.0 + (- 3.0))"
proof (intro conjI impI)
  assume "\<not> one_smiles_pair str"
  then have "check_format str = (- 5.0, None)" using check_format_cases[of str] by blast
  then show "chem_compute_score env str g = - 5.0" by (simp add: chem_compute_score_def)
next
  assume "RDKIT_AVAILABLE env \<and> check_format str = (1.0, Some smiles) \<and>
    (MolFromSmiles env smiles = Raises \<or> MolFromSmiles env smiles = Returns None)"
  then show "chem_compute_score env str g = 1.0 + (- 3.0)"
    by (auto simp: chem_compute_score_def check_validity_def)
qed

lemma no_pair_in_empty_tags: "\<not> one_smiles_pair ''<SMILES></SMILES>''"
proof
  assume "one_smiles_pair ''<SMILES></SMILES>''"
  then obtain pre opn inner cls post where
    d: "''<SMILES></SMILES>'' = pre @ opn @ inner @ cls @ post"
    and o: "lower opn = lower ''<SMILES>''" and c: "lower cls = lower ''</SMILES>''"
    and i: "strip inner \<noteq> []"
    unfolding one_smiles_pair_def by blast
  from o have "length (lower opn) = length (lower ''<SMILES>'')" by simp
  then have lo: "length opn = 8" by (simp add: lower_def)
  from c have "length (lower cls) = length (lower ''</SMILES>'')" by simp
  then have lc: "length cls = 9" by (simp add: lower_def)
  from d have "length ''<SMILES></SMILES>'' = length (pre @ opn @ inner @ cls @ post)" by simp
  with lo lc have "inner = []" by simp
  with i show False by (simp add: strip_def)
qed

theorem molecule_scorer_staged_witness:
  "\<not> one_smiles_pair ''<SMILES></SMILES>'' \<and>
   chem_compute_score (raising_rdkit True) ''<SMILES></SMILES>'' () = - 5 \<and>
   check_format ''<SMILES>XX</SMILES>'' = (1, Some ''XX'') \<and>
   chem_compute_score (raising_rdkit True) ''<SMILES>XX</SMILES>'' () = - 2"
proof -
  have f: "check_format ''<SMILES>XX</SMILES>'' = (1.0, Some ''XX'')"
    by (simp add: check_format_def scan_defs char_defs smiles_tail_def strip_def isspace_def)
  have r: "RDKIT_AVAILABLE (raising_rdkit True)"
    "MolFromSmiles (raising_rdkit True) ''XX'' = Returns None"
    by (simp_all add: raising_rdkit_def)
  show ?thesis
    using molecule_scorer_staged[of "''<SMILES></SMILES>''" "raising_rdkit True" "()"]
      molecule_scorer_staged[of "''<SMILES>XX</SMILES>''" "raising_rdkit True" "()" "''XX''"]
      no_pair_in_empty_tags f r
    by simp
qed

section \<open>Properties of the reward managers\<close>

lemma select_kk: "select_rm_score_fn kk ''kk'' = Inr kk"
  by (simp add: select_rm_score_fn_def contains_def)

lemma tensor_setitem_row:
  assumes "length pre = i" and "row_writable d"
  shows "tensor_setitem (pre @ replicate (length (responses d)) 0 # post) i
           (int (valid_response_length d) - 1) v = Inr (pre @ reward_row d v # post)"
proof -
  let ?n = "length (responses d)"
  from assms(2) have n: "0 < ?n" "valid_response_length d \<le> ?n"
    by (auto simp: row_writable_def)
  show ?thesis
  proof (cases "valid_response_length d = 0")
    case True
    have "nat (int ?n - 1) = ?n - 1" by simp
    with True n assms(1) show ?thesis
      by (simp add: tensor_setitem_def reward_row_def written_column_def nth_append
            list_update_append nat_diff_distrib')
  next
    case False
    then have "nat (int (valid_response_length d) - 1) = valid_response_length d - 1"
      by simp
    with False n assms(1) show ?thesis
      by (simp add: tensor_setitem_def reward_row_def written_column_def nth_append
            list_update_append)
  qed
qed

lemma chem_loop_rows:
  assumes "\<forall>d \<in> set ds. row_writable d" and "length pre = i"
  shows "chem_loop env decode i ds (pre @ zeros_like ds) sc =
     Inr (pre @ map (\<lambda>d. reward_row d
              (chem_compute_score env (response_str decode d) (ground_truth d))) ds,
          sc @ map (\<lambda>d. chem_compute_score env (response_str decode d) (ground_truth d)) ds)"
  using assms
proof (induction ds arbitrary: pre i sc)
  case Nil
  then show ?case by (simp add: zeros_like_def)
next
  case (Cons d ds)
  let ?v = "chem_compute_score env (response_str decode d) (ground_truth d)"
  from Cons.prems have w: "row_writable d" and ws: "\<forall>d \<in> set ds. row_writable d" by auto
  have s: "tensor_setitem (pre @ zeros_like (d # ds)) i (int (valid_response_length d) - 1) ?v
         = Inr ((pre @ [reward_row d ?v]) @ zeros_like ds)"
    using tensor_setitem_row[OF Cons.prems(2) w, of "zeros_like ds" ?v]
    by (simp add: zeros_like_def)
  have l: "length (pre @ [reward_row d ?v]) = Suc i" using Cons.prems(2) by simp
  show ?case
    using Cons.IH[OF ws l, of "sc @ [?v]"] s
    by (simp add: and_then_def Let_def)
qed

lemma logic_rl_loop_rows:
  assumes "\<forall>d \<in> set ds. row_writable d" and "length pre = i"
    and "\<forall>d \<in> set ds. kk (response_str decode d) (ground_truth d) = Inr (f d)"
  shows "logic_rl_loop kk decode i ds (pre @ zeros_like ds) sc =
     Inr (pre @ map (\<lambda>d. reward_row d (f d)) ds, sc @ map f ds)"
  using assms
proof (induction ds arbitrary: pre i sc)
  case Nil
  then show ?case by (simp add: zeros_like_def)
next
  case (Cons d ds)
  from Cons.prems have w: "row_writable d" and ws: "\<forall>d \<in> set ds. row_writable d"
    and k: "kk (response_str decode d) (ground_truth d) = Inr (f d)"
    and ks: "\<forall>d \<in> set ds. kk (response_str decode d) (ground_truth d) = Inr (f d)" by auto
  have s: "tensor_setitem (pre @ zeros_like (d # ds)) i (int (valid_response_length d) - 1) (f d)
         = Inr ((pre @ [reward_row d (f d)]) @ zeros_like ds)"
    using tensor_setitem_row[OF Cons.prems(2) w, of "zeros_like ds" "f d"]
    by (simp add: zeros_like_def)
  have l: "length (pre @ [reward_row d (f d)]) = Suc i" using Cons.prems(2) by simp
  show ?case
    using Cons.IH[OF ws l ks, of "sc @ [f d]"] s k
    by (simp add: and_then_def select_kk)
qed

lemma response_str_zero:
  "valid_response_length d = 0 \<Longrightarrow> response_str decode d = decode []"
  by (simp add: response_str_def)

text \<open>
  Claim C4, amended. A sample whose attention mask selects no valid response token is not
  treated as an error. In a batch without precomputed scores in which every row can be
  written (and, for the logic manager, the scorer returns a score on every sample), both
  managers return the grid, and the row of that sample holds the score of the decoding of
  the empty token list in its last column (column index \<open>-1\<close>) and zeros elsewhere.
\<close>

theorem zero_valid_tokens_scored_in_last_column:
  assumes "rm_scores data = None"
    and "i < length (items data)"
    and "valid_response_length (items data ! i) = 0"
    and "\<forall>d \<in> set (items data). row_writable d"
    and "\<forall>d \<in> set (items data). \<exists>s. kk (response_str decode d) (ground_truth d) = Inr s"
  shows "(\<exists>rt. chem_reward_call env decode data False = Inr (Tensor rt) \<and>
            rt ! i = (replicate (length (responses (items data ! i))) 0)
              [length (responses (items data ! i)) - 1 :=
                 chem_compute_score env (decode []) (ground_truth (items data ! i))]) \<and>
         (\<exists>rt s. kk (decode []) (ground_truth (items data ! i)) = Inr s \<and>
            logic_rl_reward_call kk decode data False = Inr (Tensor rt) \<and>
            rt ! i = (replicate (length (responses (items data ! i))) 0)
              [length (responses (items data ! i)) - 1 := s])"
proof
  let ?d = "items data ! i"
  let ?rows = "map (\<lambda>d. reward_row d
      (chem_compute_score env (response_str decode d) (ground_truth d))) (items data)"
  have loop: "chem_loop env decode 0 (items data) (zeros_like (items data)) [] =
      Inr (?rows, map (\<lambda>d. chem_compute_score env (response_str decode d) (ground_truth d))
                    (items data))"
    using chem_loop_rows[OF assms(4), of "[]" 0 env decode "[]"] by simp
  from assms(2) have din: "?d \<in> set (items data)" by simp
  with assms(4) have w: "row_writable ?d" by blast
  have row: "?rows ! i = (replicate (length (responses ?d)) 0)
      [length (responses ?d) - 1 := chem_compute_score env (decode []) (ground_truth ?d)]"
    using assms(2,3) by (simp add: reward_row_def written_column_def response_str_zero)
  have ne: "concat ?rows \<noteq> []"
  proof -
    have "?rows ! i \<in> set ?rows" by (rule nth_mem) (simp add: assms(2))
    moreover have "?rows ! i \<noteq> []"
      using w unfolding row by (simp add: row_writable_def)
    ultimately show ?thesis unfolding concat_eq_Nil_conv by blast
  qed
  show "\<exists>rt. chem_reward_call env decode data False = Inr (Tensor rt) \<and>
            rt ! i = (replicate (length (responses ?d)) 0)
              [length (responses ?d) - 1 := chem_compute_score env (decode []) (ground_truth ?d)]"
    using loop ne row assms(1) by (simp add: chem_reward_call_def and_then_def)
next
  let ?d = "items data ! i"
  from assms(5) obtain f where
    f: "\<forall>d \<in> set (items data). kk (response_str decode d) (ground_truth d) = Inr (f d)"
    by (rule bchoice[THEN exE])
  have loop: "logic_rl_loop kk decode 0 (items data) (zeros_like (items data)) [] =
      Inr (map (\<lambda>d. reward_row d (f d)) (items data), map f (items data))"
    using logic_rl_loop_rows[OF assms(4) _ f, of "[]" 0 "[]"] by simp
  from assms(2) have din: "?d \<in> set (items data)" by simp
  with f assms(3) have k: "kk (decode []) (ground_truth ?d) = Inr (f ?d)"
    by (metis response_str_zero)
  have row: "map (\<lambda>d. reward_row d (f d)) (items data) ! i =
      (replicate (length (responses ?d)) 0)[length (responses ?d) - 1 := f ?d]"
    using assms(2,3) by (simp add: reward_row_def written_column_def)
  show "\<exists>rt s. kk (decode []) (ground_truth ?d) = Inr s \<and>
            logic_rl_reward_call kk decode data False = Inr (Tensor rt) \<and>
            rt ! i = (replicate (length (responses ?d)) 0)[length (responses ?d) - 1 := s]"
    using loop k row assms(1) by (simp add: logic_rl_reward_call_def and_then_def)
qed

lemmas manager_defs = chem_reward_call_def logic_rl_reward_call_def and_then_def
  tensor_setitem_def zeros_like_def valid_response_length_def response_str_def
  sample_def batch_def select_rm_score_fn_def contains_def kk_one_def

lemma chem_empty_response: "chem_compute_score (raising_rdkit True) [] () = - 5"
  by (simp add: chem_compute_score_def raising_rdkit_def check_format_def finditer_def)

text \<open>
  A batch whose only sample has no valid response token: both managers return a grid, with
  the score of the empty response in the last column of the row.
\<close>

theorem zero_valid_tokens_counterexample:
  "valid_response_length (sample [1, 0, 0] ''chem'') = 0 \<and>
   chem_reward_call (raising_rdkit True) (map char_of) (batch [sample [1, 0, 0] ''chem'']) False =
     Inr (Tensor [[0, - 5]]) \<and>
   logic_rl_reward_call kk_one (map char_of) (batch [sample [1, 0, 0] ''kk'']) False =
     Inr (Tensor [[0, 1]])"
  by (simp add: manager_defs chem_empty_response)

theorem zero_valid_tokens_scored_in_last_column_witness:
  "valid_response_length (sample [1, 0, 0] ''chem'') = 0 \<and>
   (\<exists>rt. chem_reward_call (raising_rdkit True) (map char_of)
           (batch [sample [1, 1, 0] ''chem'', sample [1, 0, 0] ''chem'']) False = Inr (Tensor rt) \<and>
         rt ! 1 = [0, - 5]) \<and>
   (\<exists>rt. logic_rl_reward_call kk_one (map char_of)
           (batch [sample [1, 1, 0] ''chem'', sample [1, 0, 0] ''chem'']) False = Inr (Tensor rt) \<and>
         rt ! 1 = [0, 1])"
proof -
  let ?data = "batch [sample [1, 1, 0] ''chem'', sample [1, 0, 0] ''chem'']"
  have h1: "rm_scores ?data = None" by (simp add: batch_def)
  have h2: "1 < length (items ?data)" by (simp add: batch_def)
  have h3: "valid_response_length (items ?data ! 1) = 0"
    by (simp add: batch_def sample_def valid_response_length_def)
  have h4: "\<forall>d \<in> set (items ?data). row_writable d"
    by (simp add: batch_def sample_def valid_response_length_def row_writable_def)
  have h5: "\<forall>d \<in> set (items ?data).
      \<exists>s. kk_one (response_str (map char_of) d) (ground_truth d) = Inr s"
    by (simp add: kk_one_def)
  have i: "items ?data ! 1 = sample [1, 0, 0] ''chem''" by (simp add: batch_def)
  show ?thesis
    using zero_valid_tokens_scored_in_last_column[where decode = "map char_of"
        and kk = kk_one and env = "raising_rdkit True", OF h1 h2 h3 h4 h5] h3
    unfolding i by (simp add: chem_empty_response sample_def kk_one_def)
qed

lemma contains_iff_sublist: "contains sub s \<longleftrightarrow> sublist sub s"
  unfolding contains_def by (induction s) (auto simp: sublist_Cons_right)

lemma logic_rl_loop_data_source:
  "logic_rl_loop kk decode i (map (\<lambda>d. d\<lparr>data_source := src d\<rparr>) ds) t sc =
   logic_rl_loop kk decode i ds t sc"
  by (induction ds arbitrary: i t sc)
     (simp_all add: valid_response_length_def response_str_def)

text \<open>
  Claim C1, amended. For every sample of a batch without precomputed scores the manager
  selects the scorer under the fixed key \<open>kk\<close>, whatever the sample's data-source tag:
  the result of the batch-level call does not change when the tags are replaced, so a
  sample with an unregistered tag is scored, not failed. The selection function itself
  raises \<open>NotImplementedError\<close> on a tag that matches no registered domain.
\<close>

theorem logic_rl_scorer_is_fixed:
  "select_rm_score_fn kk ''kk'' = Inr kk \<and>
   logic_rl_reward_call kk decode
     (data\<lparr>items := map (\<lambda>d. d\<lparr>data_source := src d\<rparr>) (items data)\<rparr>) return_dict =
   logic_rl_reward_call kk decode data return_dict \<and>
   (ds \<noteq> ''openai/gsm8k'' \<and> ds \<noteq> ''lighteval/MATH'' \<and> \<not> sublist ''countdown'' ds \<and>
    \<not> sublist ''kk'' ds \<and> \<not> sublist ''rule'' ds \<longrightarrow>
      select_rm_score_fn kk ds = Inl NotImplementedError)"
proof (intro conjI impI)
  show "select_rm_score_fn kk ''kk'' = Inr kk" by (rule select_kk)
  show "logic_rl_reward_call kk decode
     (data\<lparr>items := map (\<lambda>d. d\<lparr>data_source := src d\<rparr>) (items data)\<rparr>) return_dict =
   logic_rl_reward_call kk decode data return_dict"
    by (cases "rm_scores data")
       (simp_all add: logic_rl_reward_call_def logic_rl_loop_data_source zeros_like_def comp_def)
  assume "ds \<noteq> ''openai/gsm8k'' \<and> ds \<noteq> ''lighteval/MATH'' \<and> \<not> sublist ''countdown'' ds \<and>
    \<not> sublist ''kk'' ds \<and> \<not> sublist ''rule'' ds"
  then show "select_rm_score_fn kk ds = Inl NotImplementedError"
    by (simp add: select_rm_score_fn_def contains_iff_sublist)
qed


text \<open>
  A batch whose sample carries a data-source tag that the selection function rejects: the
  manager scores it all the same.
\<close>

theorem unknown_data_source_scored_counterexample:
  "select_rm_score_fn kk_one ''unknown_domain'' = Inl NotImplementedError \<and>
   logic_rl_reward_call kk_one (map char_of) (batch [sample [1, 1, 0] ''unknown_domain''])
     False = Inr (Tensor [[1, 0]])"
  by (simp add: manager_defs)

theorem logic_rl_scorer_is_fixed_witness:
  "select_rm_score_fn kk_one ''unknown_domain'' = Inl NotImplementedError \<and>
   logic_rl_reward_call kk_one (map char_of) (batch [sample [1, 1, 0] ''unknown_domain''])
     False =
   logic_rl_reward_call kk_one (map char_of) (batch [sample [1, 1, 0] ''kk'']) False"
proof -
  have n: "''unknown_domain'' \<noteq> ''openai/gsm8k'' \<and> ''unknown_domain'' \<noteq> ''lighteval/MATH'' \<and>
    \<not> sublist ''countdown'' ''unknown_domain'' \<and> \<not> sublist ''kk'' ''unknown_domain'' \<and>
    \<not> sublist ''rule'' ''unknown_domain''"
    by (simp add: sublist_Cons_right)
  have u: "(batch [sample [1, 1, 0] ''kk''])\<lparr>items :=
      map (\<lambda>d. d\<lparr>data_source := ''unknown_domain''\<rparr>) (items (batch [sample [1, 1, 0] ''kk'']))\<rparr> =
      batch [sample [1, 1, 0] ''unknown_domain'']"
    by (simp add: batch_def sample_def)
  show ?thesis
    using logic_rl_scorer_is_fixed[where kk = kk_one and decode = "map char_of"
        and data = "batch [sample [1, 1, 0] ''kk'']" and src = "\<lambda>d. ''unknown_domain''"
        and return_dict = False and ds = "''unknown_domain''"] n
    unfolding u by simp
qed

end
